theory Spec2Isabelle
  imports Complex_Main
begin

section \<open>JavaScript values\<close>

text \<open>
  The component receives \<^verbatim>\<open>initialData?: any\<close>, so the values that flow into the form
  are arbitrary JavaScript values. Numbers are kept as rationals plus \<open>NaN\<close>; the
  component never computes with them, it only tests them for truthiness, and any number
  other than zero and \<open>NaN\<close> is truthy. \<open>JDate v\<close> is the object \<^verbatim>\<open>new Date(v)\<close>.
\<close>

datatype jsval =
    JUndefined
  | JNull
  | JBool bool
  | JNum rat
  | JNaN
  | JStr string
  | JDate jsval
  | JObj "(string \<times> jsval) list"

fun truthy :: "jsval \<Rightarrow> bool" where
  "truthy JUndefined = False"
| "truthy JNull = False"
| "truthy (JBool b) = b"
| "truthy (JNum r) = (r \<noteq> 0)"
| "truthy JNaN = False"
| "truthy (JStr s) = (s \<noteq> [])"
| "truthy (JDate v) = True"
| "truthy (JObj kvs) = True"

text \<open>The operator \<^verbatim>\<open>a || b\<close>.\<close>

definition js_or :: "jsval \<Rightarrow> jsval \<Rightarrow> jsval" where
  "js_or a b = (if truthy a then a else b)"

fun nullish :: "jsval \<Rightarrow> bool" where
  "nullish JUndefined = True"
| "nullish JNull = True"
| "nullish v = False"

text \<open>
  Reading a property of a value that is neither \<^verbatim>\<open>null\<close> nor \<^verbatim>\<open>undefined\<close>. The
  component only reads the twenty field names and \<^verbatim>\<open>message\<close>; none of them is a
  property of a primitive or of a \<^verbatim>\<open>Date\<close>, so those reads give \<^verbatim>\<open>undefined\<close>.
\<close>

fun member :: "jsval \<Rightarrow> string \<Rightarrow> jsval" where
  "member (JObj kvs) k = (case map_of kvs k of Some v \<Rightarrow> v | None \<Rightarrow> JUndefined)"
| "member v k = JUndefined"

text \<open>Optional chaining \<^verbatim>\<open>v?.k\<close>.\<close>

definition opt_member :: "jsval \<Rightarrow> string \<Rightarrow> jsval" where
  "opt_member v k = (if nullish v then JUndefined else member v k)"

datatype js_exception = TypeError

text \<open>Plain access \<^verbatim>\<open>v.k\<close>, which throws on \<^verbatim>\<open>null\<close> and \<^verbatim>\<open>undefined\<close>.\<close>

definition get_member :: "jsval \<Rightarrow> string \<Rightarrow> js_exception + jsval" where
  "get_member v k = (if nullish v then Inl TypeError else Inr (member v k))"

section \<open>Props, form values and component state\<close>

record ProductFormValues =
  name :: jsval
  description :: jsval
  sku :: jsval
  hsn_code :: jsval
  price :: jsval
  cost_price :: jsval
  stock_quantity :: jsval
  gst_rate :: jsval
  unit :: jsval
  low_stock_threshold :: jsval
  type :: jsval
  image_url :: jsval
  barcode :: jsval
  category :: jsval
  tax_type :: jsval
  purchase_tax_type :: jsval
  discount :: jsval
  discount_type :: jsval
  wholesale_price :: jsval
  opening_stock_date :: jsval

text \<open>An absent optional prop is \<open>JUndefined\<close> for \<open>initialData\<close> and \<open>None\<close> for \<open>productId\<close>.\<close>

record ProductFormProps =
  initialData :: jsval
  productId :: "string option"

text \<open>
  The three \<^verbatim>\<open>useState\<close> cells and the state of the form object returned by
  \<^verbatim>\<open>useForm\<close>: the current values and the error message of each field, by field name.
\<close>

record component =
  loading :: bool
  showWholesale :: bool
  itemType :: jsval
  form_values :: ProductFormValues
  form_errors :: "string \<Rightarrow> string option"

definition defaultValues :: "ProductFormProps \<Rightarrow> ProductFormValues" where
  "defaultValues p =
     \<lparr> name = js_or (opt_member (initialData p) ''name'') (JStr ''''),
       description = js_or (opt_member (initialData p) ''description'') (JStr ''''),
       sku = js_or (opt_member (initialData p) ''sku'') (JStr ''''),
       hsn_code = js_or (opt_member (initialData p) ''hsn_code'') (JStr ''''),
       price = js_or (opt_member (initialData p) ''price'') (JNum 0),
       cost_price = js_or (opt_member (initialData p) ''cost_price'') (JNum 0),
       stock_quantity = js_or (opt_member (initialData p) ''stock_quantity'') (JNum 0),
       gst_rate = js_or (opt_member (initialData p) ''gst_rate'') (JNum 0),
       unit = js_or (opt_member (initialData p) ''unit'') (JStr ''pcs''),
       low_stock_threshold = js_or (opt_member (initialData p) ''low_stock_threshold'') (JNum 5),
       type = js_or (opt_member (initialData p) ''type'') (JStr ''product''),
       image_url = js_or (opt_member (initialData p) ''image_url'') (JStr ''''),
       barcode = js_or (opt_member (initialData p) ''barcode'') (JStr ''''),
       category = js_or (opt_member (initialData p) ''category'') (JStr ''''),
       tax_type = js_or (opt_member (initialData p) ''tax_type'') (JStr ''exclusive''),
       purchase_tax_type =
         js_or (opt_member (initialData p) ''purchase_tax_type'') (JStr ''exclusive''),
       discount = js_or (opt_member (initialData p) ''discount'') (JNum 0),
       discount_type = js_or (opt_member (initialData p) ''discount_type'') (JStr ''percentage''),
       wholesale_price = js_or (opt_member (initialData p) ''wholesale_price'') JUndefined,
       opening_stock_date =
         (if truthy (opt_member (initialData p) ''opening_stock_date'')
          then JDate (member (initialData p) ''opening_stock_date'')
          else JUndefined) \<rparr>"

text \<open>The state of a freshly mounted component.\<close>

definition initial_component :: "ProductFormProps \<Rightarrow> component" where
  "initial_component p =
     \<lparr> loading = False,
       showWholesale = False,
       itemType = js_or (opt_member (initialData p) ''type'') (JStr ''product''),
       form_values = defaultValues p,
       form_errors = (\<lambda>f. None) \<rparr>"

section \<open>Effects on the collaborators\<close>

text \<open>
  Every call the component makes on something it does not own is recorded, in order:
  the state setters, the two inventory actions, the toast, the console, the router and
  the form object.
\<close>

datatype effect =
    SetLoading bool
  | SetItemType jsval
  | SetShowWholesale bool
  | UpdateProduct string ProductFormValues
  | CreateProduct ProductFormValues
  | ToastSuccess string
  | ToastError jsval
  | ConsoleError jsval
  | RouterRefresh
  | RouterPush string
  | RouterBack
  | FormReset ProductFormValues
  | FormSetValue string jsval

text \<open>
  How the awaited inventory action settles. The actions are imported, so their outcome
  is an input of the handler; a rejection carries the thrown value.
\<close>

datatype outcome = Resolved | Rejected jsval

text \<open>Whether the promise of an \<^verbatim>\<open>async\<close> function is fulfilled or rejected.\<close>

datatype completion = Returned | Threw js_exception

fun is_call :: "effect \<Rightarrow> bool" where
  "is_call (UpdateProduct pid d) = True"
| "is_call (CreateProduct d) = True"
| "is_call e = False"

fun is_success_toast :: "effect \<Rightarrow> bool" where
  "is_success_toast (ToastSuccess m) = True"
| "is_success_toast e = False"

fun is_error_report :: "effect \<Rightarrow> bool" where
  "is_error_report (ToastError m) = True"
| "is_error_report (ConsoleError e) = True"
| "is_error_report e = False"

fun is_router :: "effect \<Rightarrow> bool" where
  "is_router RouterRefresh = True"
| "is_router (RouterPush path) = True"
| "is_router RouterBack = True"
| "is_router e = False"

fun is_form_write :: "effect \<Rightarrow> bool" where
  "is_form_write (FormReset d) = True"
| "is_form_write (FormSetValue f v) = True"
| "is_form_write (SetItemType t) = True"
| "is_form_write e = False"

section \<open>The handlers\<close>

definition handleTypeChange :: "jsval \<Rightarrow> component \<Rightarrow> component \<times> effect list" where
  "handleTypeChange t st =
     (st\<lparr>itemType := t, form_values := (form_values st)\<lparr>type := t\<rparr>\<rparr>,
      [SetItemType t, FormSetValue ''type'' t])"

text \<open>
  \<^verbatim>\<open>handleSave\<close> suspends once, at the awaited action. What it holds across the
  suspension is the \<^verbatim>\<open>itemType\<close> of the render that created it and its
  \<^verbatim>\<open>shouldRedirect\<close> argument; \<^verbatim>\<open>productId\<close> and \<^verbatim>\<open>defaultValues\<close> come from the props.
\<close>

record suspended =
  held_itemType :: jsval
  held_shouldRedirect :: bool

text \<open>The test \<^verbatim>\<open>if (productId)\<close>: an absent and an empty id are both falsy.\<close>

fun given_id :: "string option \<Rightarrow> bool" where
  "given_id None = False"
| "given_id (Some pid) = (pid \<noteq> [])"

text \<open>The action that the same test selects, applied to the submission.\<close>

fun save_action :: "string option \<Rightarrow> ProductFormValues \<Rightarrow> effect" where
  "save_action None d = CreateProduct d"
| "save_action (Some pid) d = (if pid \<noteq> [] then UpdateProduct pid d else CreateProduct d)"

text \<open>Up to the \<^verbatim>\<open>await\<close>: the loading flag is set and the action is called.\<close>

definition handleSave_begin ::
  "ProductFormProps \<Rightarrow> ProductFormValues \<Rightarrow> bool \<Rightarrow> component
     \<Rightarrow> component \<times> effect list \<times> suspended" where
  "handleSave_begin p data shouldRedirect st =
     (let submissionData = data\<lparr>type := itemType st\<rparr>
      in (st\<lparr>loading := True\<rparr>,
          [SetLoading True, save_action (productId p) submissionData],
          \<lparr>held_itemType = itemType st, held_shouldRedirect = shouldRedirect\<rparr>))"

text \<open>
  The rest of the \<^verbatim>\<open>try\<close> block, run when the action resolves. \<^verbatim>\<open>form.reset\<close> replaces
  the values of the form and clears its errors.
\<close>

definition try_rest ::
  "ProductFormProps \<Rightarrow> suspended \<Rightarrow> component \<Rightarrow> component \<times> effect list" where
  "try_rest p k st =
     (let toast = ToastSuccess (if given_id (productId p) then ''Item updated successfully''
                                else ''Item created successfully'')
      in if held_shouldRedirect k
         then (st, [toast, RouterRefresh, RouterPush ''/dashboard/inventory''])
         else
           (let fresh = (defaultValues p)\<lparr>type := held_itemType k\<rparr>;
                st1 = st\<lparr>form_values := fresh, form_errors := (\<lambda>f. None)\<rparr>;
                (st2, es) = handleTypeChange (held_itemType k) st1
            in (st2, [toast, RouterRefresh, FormReset fresh] @ es)))"

text \<open>The \<^verbatim>\<open>catch\<close> block; reading \<^verbatim>\<open>error.message\<close> can itself throw.\<close>

definition catch_block :: "jsval \<Rightarrow> js_exception + effect list" where
  "catch_block error =
     (case get_member error ''message'' of
        Inl exn \<Rightarrow> Inl exn
      | Inr m \<Rightarrow> Inr [ToastError (js_or m (JStr ''Something went wrong'')), ConsoleError error])"

text \<open>From the settling of the action to the end, through \<^verbatim>\<open>finally\<close>.\<close>

definition handleSave_settle ::
  "ProductFormProps \<Rightarrow> suspended \<Rightarrow> outcome \<Rightarrow> component
     \<Rightarrow> component \<times> effect list \<times> completion" where
  "handleSave_settle p k out st =
     (case out of
        Resolved \<Rightarrow>
          (let (st1, es) = try_rest p k st
           in (st1\<lparr>loading := False\<rparr>, es @ [SetLoading False], Returned))
      | Rejected error \<Rightarrow>
          (case catch_block error of
             Inl exn \<Rightarrow> (st\<lparr>loading := False\<rparr>, [SetLoading False], Threw exn)
           | Inr es \<Rightarrow> (st\<lparr>loading := False\<rparr>, es @ [SetLoading False], Returned)))"

text \<open>One whole run of \<^verbatim>\<open>handleSave\<close>, with no other event while the action is pending.\<close>

definition handleSave ::
  "ProductFormProps \<Rightarrow> outcome \<Rightarrow> ProductFormValues \<Rightarrow> bool \<Rightarrow> component
     \<Rightarrow> component \<times> effect list \<times> completion" where
  "handleSave p out data shouldRedirect st =
     (let (st1, es1, k) = handleSave_begin p data shouldRedirect st;
          (st2, es2, c) = handleSave_settle p k out st1
      in (st2, es1 @ es2, c))"

definition state_of :: "component \<times> effect list \<times> completion \<Rightarrow> component" where
  "state_of r = fst r"

definition effects_of :: "component \<times> effect list \<times> completion \<Rightarrow> effect list" where
  "effects_of r = fst (snd r)"

definition completion_of :: "component \<times> effect list \<times> completion \<Rightarrow> completion" where
  "completion_of r = snd (snd r)"

definition onSubmit :: "(ProductFormValues \<Rightarrow> bool \<Rightarrow> 'a) \<Rightarrow> ProductFormValues \<Rightarrow> 'a" where
  "onSubmit save data = save data True"


section \<open>Validation on submit\<close>



section \<open>Rendering\<close>

text \<open>
  The part of the rendered tree that depends on state: the heading, the tab triggers and
  tab panels in order, the message shown under each field, and the two save buttons.
\<close>

record view =
  heading :: string
  tab_triggers :: "string list"
  tab_contents :: "string list"
  shown_message :: "string \<Rightarrow> string option"
  save_and_new_disabled :: bool
  save_disabled :: bool
  save_label :: string

text \<open>The fields whose \<^verbatim>\<open>FormItem\<close> contains a \<^verbatim>\<open>FormMessage\<close>.\<close>

definition form_message_fields :: "string list" where
  "form_message_fields = [''name'', ''unit'', ''category'', ''price'']"


text \<open>
  Modelled from the spec: the \<^verbatim>\<open>FormMessage\<close> component of the project's form widgets,
  which is not part of the sources. The spec says that validation errors are reported
  inline per field: a \<^verbatim>\<open>FormMessage\<close> shows the error stored for its field.
\<close>

definition FormMessage :: "component \<Rightarrow> string \<Rightarrow> string option" where
  "FormMessage st f = (if f \<in> set form_message_fields then form_errors st f else None)"

definition render :: "ProductFormProps \<Rightarrow> component \<Rightarrow> view" where
  "render p st =
     \<lparr> heading = (if given_id (productId p) then ''Edit Item'' else ''Add Item''),
       tab_triggers =
         [''general'', ''pricing''] @ (if itemType st = JStr ''product'' then [''stock''] else []),
       tab_contents =
         [''general'', ''pricing''] @ (if itemType st = JStr ''product'' then [''stock''] else []),
       shown_message = FormMessage st,
       save_and_new_disabled = loading st,
       save_disabled = loading st,
       save_label = (if loading st then ''Saving...'' else ''Save'') \<rparr>"

section \<open>The component as a state machine\<close>








section \<open>What one run of handleSave does\<close>

lemma handleSave_resolved_redirect:
  "handleSave p Resolved data True st =
     (st\<lparr>loading := False\<rparr>,
      [SetLoading True, save_action (productId p) (data\<lparr>type := itemType st\<rparr>),
       ToastSuccess (if given_id (productId p) then ''Item updated successfully''
                     else ''Item created successfully''),
       RouterRefresh, RouterPush ''/dashboard/inventory'', SetLoading False],
      Returned)"
  by (simp add: handleSave_def handleSave_begin_def handleSave_settle_def try_rest_def Let_def)

lemma handleSave_resolved_stay:
  "handleSave p Resolved data False st =
     (st\<lparr>loading := False, form_values := (defaultValues p)\<lparr>type := itemType st\<rparr>,
         form_errors := (\<lambda>f. None)\<rparr>,
      [SetLoading True, save_action (productId p) (data\<lparr>type := itemType st\<rparr>),
       ToastSuccess (if given_id (productId p) then ''Item updated successfully''
                     else ''Item created successfully''),
       RouterRefresh, FormReset ((defaultValues p)\<lparr>type := itemType st\<rparr>),
       SetItemType (itemType st), FormSetValue ''type'' (itemType st), SetLoading False],
      Returned)"
  by (simp add: handleSave_def handleSave_begin_def handleSave_settle_def try_rest_def
      handleTypeChange_def Let_def)

lemma handleSave_rejected:
  "handleSave p (Rejected e) data r st =
     (st\<lparr>loading := False\<rparr>,
      [SetLoading True, save_action (productId p) (data\<lparr>type := itemType st\<rparr>)]
        @ (if nullish e then []
           else [ToastError (js_or (member e ''message'') (JStr ''Something went wrong'')),
                 ConsoleError e])
        @ [SetLoading False],
      if nullish e then Threw TypeError else Returned)"
  by (simp add: handleSave_def handleSave_begin_def handleSave_settle_def catch_block_def
      get_member_def Let_def)

lemma is_call_save_action [simp]: "is_call (save_action pid d)"
  by (cases pid) simp_all

lemma save_action_not_toast [simp]: "\<not> is_success_toast (save_action pid d)"
  by (cases pid) simp_all

lemma save_action_not_router [simp]: "\<not> is_router (save_action pid d)"
  by (cases pid) simp_all

lemma save_action_not_form_write [simp]: "\<not> is_form_write (save_action pid d)"
  by (cases pid) simp_all

lemma save_action_not_error_report [simp]: "\<not> is_error_report (save_action pid d)"
  by (cases pid) simp_all

section \<open>The state machine keeps one submission in flight\<close>






section \<open>Choosing between update and create\<close>

text \<open>
  C1. A run of \<^verbatim>\<open>handleSave\<close> calls \<^verbatim>\<open>updateProduct\<close>, with the id, when the component
  was given a non-empty \<^verbatim>\<open>productId\<close>, and \<^verbatim>\<open>createProduct\<close> when \<^verbatim>\<open>productId\<close> is absent
  or the empty string; it makes exactly one such call. When the call resolves, the run
  shows exactly one success notification: \<open>Item updated successfully\<close> in the first case,
  \<open>Item created successfully\<close> in the second.
\<close>

theorem handleSave_chooses_action:
  "(productId p = Some pid \<and> pid \<noteq> [] \<longrightarrow>
      filter is_call (effects_of (handleSave p out data r st))
        = [UpdateProduct pid (data\<lparr>type := itemType st\<rparr>)]
      \<and> (out = Resolved \<longrightarrow>
           filter is_success_toast (effects_of (handleSave p out data r st))
             = [ToastSuccess ''Item updated successfully'']))
   \<and> (productId p = None \<or> productId p = Some [] \<longrightarrow>
      filter is_call (effects_of (handleSave p out data r st))
        = [CreateProduct (data\<lparr>type := itemType st\<rparr>)]
      \<and> (out = Resolved \<longrightarrow>
           filter is_success_toast (effects_of (handleSave p out data r st))
             = [ToastSuccess ''Item created successfully'']))"
proof (cases out)
  case Resolved
  then show ?thesis
    by (cases r)
      (auto simp: effects_of_def handleSave_resolved_redirect handleSave_resolved_stay)
next
  case (Rejected e)
  then show ?thesis
    by (auto simp: effects_of_def handleSave_rejected)
qed

text \<open>An edit form with id \<open>p1\<close> and an add form, both with a call that resolves.\<close>

theorem handleSave_chooses_action_witness:
  "productId \<lparr>initialData = JUndefined, productId = Some ''p1''\<rparr> = Some ''p1''
   \<and> ''p1'' \<noteq> []
   \<and> filter is_call (effects_of (handleSave \<lparr>initialData = JUndefined, productId = Some ''p1''\<rparr>
        Resolved (defaultValues \<lparr>initialData = JUndefined, productId = Some ''p1''\<rparr>) True
        (initial_component \<lparr>initialData = JUndefined, productId = Some ''p1''\<rparr>)))
      = [UpdateProduct ''p1'' (defaultValues \<lparr>initialData = JUndefined, productId = Some ''p1''\<rparr>)]
   \<and> filter is_success_toast (effects_of (handleSave \<lparr>initialData = JUndefined, productId = Some ''p1''\<rparr>
        Resolved (defaultValues \<lparr>initialData = JUndefined, productId = Some ''p1''\<rparr>) True
        (initial_component \<lparr>initialData = JUndefined, productId = Some ''p1''\<rparr>)))
      = [ToastSuccess ''Item updated successfully'']
   \<and> productId \<lparr>initialData = JUndefined, productId = None\<rparr> = None
   \<and> filter is_call (effects_of (handleSave \<lparr>initialData = JUndefined, productId = None\<rparr>
        Resolved (defaultValues \<lparr>initialData = JUndefined, productId = None\<rparr>) False
        (initial_component \<lparr>initialData = JUndefined, productId = None\<rparr>)))
      = [CreateProduct (defaultValues \<lparr>initialData = JUndefined, productId = None\<rparr>)]
   \<and> filter is_success_toast (effects_of (handleSave \<lparr>initialData = JUndefined, productId = None\<rparr>
        Resolved (defaultValues \<lparr>initialData = JUndefined, productId = None\<rparr>) False
        (initial_component \<lparr>initialData = JUndefined, productId = None\<rparr>)))
      = [ToastSuccess ''Item created successfully'']"
  using handleSave_chooses_action
          [of "\<lparr>initialData = JUndefined, productId = Some ''p1''\<rparr>" "''p1''" Resolved
              "defaultValues \<lparr>initialData = JUndefined, productId = Some ''p1''\<rparr>" True
              "initial_component \<lparr>initialData = JUndefined, productId = Some ''p1''\<rparr>"]
        handleSave_chooses_action
          [of "\<lparr>initialData = JUndefined, productId = None\<rparr>" "''p1''" Resolved
              "defaultValues \<lparr>initialData = JUndefined, productId = None\<rparr>" False
              "initial_component \<lparr>initialData = JUndefined, productId = None\<rparr>"]
  by (simp add: initial_component_def defaultValues_def js_or_def opt_member_def)

text \<open>
  The test is on the truthiness of the id, not on its presence: a component given the
  empty string as \<^verbatim>\<open>productId\<close> calls \<^verbatim>\<open>createProduct\<close> and announces a creation. And a
  run whose call is rejected shows no success notification at all.
\<close>

theorem handleSave_supplied_id_counterexample:
  "productId \<lparr>initialData = JUndefined, productId = Some ''''\<rparr> = Some ''''
   \<and> filter is_call (effects_of (handleSave \<lparr>initialData = JUndefined, productId = Some ''''\<rparr>
        Resolved (defaultValues \<lparr>initialData = JUndefined, productId = Some ''''\<rparr>) True
        (initial_component \<lparr>initialData = JUndefined, productId = Some ''''\<rparr>)))
      = [CreateProduct (defaultValues \<lparr>initialData = JUndefined, productId = Some ''''\<rparr>)]
   \<and> filter is_success_toast (effects_of (handleSave \<lparr>initialData = JUndefined, productId = Some ''''\<rparr>
        Resolved (defaultValues \<lparr>initialData = JUndefined, productId = Some ''''\<rparr>) True
        (initial_component \<lparr>initialData = JUndefined, productId = Some ''''\<rparr>)))
      = [ToastSuccess ''Item created successfully'']
   \<and> filter is_success_toast (effects_of (handleSave \<lparr>initialData = JUndefined, productId = Some ''p1''\<rparr>
        (Rejected (JObj [(''message'', JStr ''Network down'')]))
        (defaultValues \<lparr>initialData = JUndefined, productId = Some ''p1''\<rparr>) True
        (initial_component \<lparr>initialData = JUndefined, productId = Some ''p1''\<rparr>)))
      = []"
  by (simp add: effects_of_def handleSave_resolved_redirect handleSave_rejected
      initial_component_def defaultValues_def js_or_def opt_member_def)

section \<open>A rejected call\<close>

text \<open>
  C2. When \<^verbatim>\<open>createProduct\<close> or \<^verbatim>\<open>updateProduct\<close> throws a value other than
  \<^verbatim>\<open>null\<close> and \<^verbatim>\<open>undefined\<close>, the run catches it: after the one call it shows an error
  notification carrying the thrown value's \<^verbatim>\<open>message\<close>, or \<open>Something went wrong\<close> when
  the message is empty or missing, logs the thrown value to the console, clears the
  loading flag and returns normally. The action is called once: nothing is retried.
\<close>

theorem handleSave_reports_error:
  assumes "\<not> nullish e"
  shows "effects_of (handleSave p (Rejected e) data r st)
           = [SetLoading True, save_action (productId p) (data\<lparr>type := itemType st\<rparr>),
              ToastError (if truthy (member e ''message'') then member e ''message''
                          else JStr ''Something went wrong''),
              ConsoleError e, SetLoading False]
         \<and> completion_of (handleSave p (Rejected e) data r st) = Returned
         \<and> length (filter is_call (effects_of (handleSave p (Rejected e) data r st))) = 1"
  using assms
  by (simp add: effects_of_def completion_of_def handleSave_rejected js_or_def)

text \<open>An error object with a message, and one whose message is empty.\<close>

theorem handleSave_reports_error_witness:
  "\<not> nullish (JObj [(''message'', JStr ''Network down'')])
   \<and> effects_of (handleSave \<lparr>initialData = JUndefined, productId = None\<rparr>
        (Rejected (JObj [(''message'', JStr ''Network down'')]))
        (defaultValues \<lparr>initialData = JUndefined, productId = None\<rparr>) True
        (initial_component \<lparr>initialData = JUndefined, productId = None\<rparr>))
      = [SetLoading True,
         CreateProduct (defaultValues \<lparr>initialData = JUndefined, productId = None\<rparr>),
         ToastError (JStr ''Network down''),
         ConsoleError (JObj [(''message'', JStr ''Network down'')]),
         SetLoading False]
   \<and> \<not> nullish (JObj [(''message'', JStr '''')])
   \<and> effects_of (handleSave \<lparr>initialData = JUndefined, productId = None\<rparr>
        (Rejected (JObj [(''message'', JStr '''')]))
        (defaultValues \<lparr>initialData = JUndefined, productId = None\<rparr>) True
        (initial_component \<lparr>initialData = JUndefined, productId = None\<rparr>))
      = [SetLoading True,
         CreateProduct (defaultValues \<lparr>initialData = JUndefined, productId = None\<rparr>),
         ToastError (JStr ''Something went wrong''),
         ConsoleError (JObj [(''message'', JStr '''')]),
         SetLoading False]"
  using handleSave_reports_error
          [of "JObj [(''message'', JStr ''Network down'')]"
              "\<lparr>initialData = JUndefined, productId = None\<rparr>"
              "defaultValues \<lparr>initialData = JUndefined, productId = None\<rparr>" True
              "initial_component \<lparr>initialData = JUndefined, productId = None\<rparr>"]
        handleSave_reports_error
          [of "JObj [(''message'', JStr '''')]"
              "\<lparr>initialData = JUndefined, productId = None\<rparr>"
              "defaultValues \<lparr>initialData = JUndefined, productId = None\<rparr>" True
              "initial_component \<lparr>initialData = JUndefined, productId = None\<rparr>"]
  by (simp add: initial_component_def defaultValues_def js_or_def opt_member_def)

text \<open>
  The \<^verbatim>\<open>catch\<close> block reads \<^verbatim>\<open>error.message\<close> unguarded. When the thrown value is
  \<^verbatim>\<open>undefined\<close> that read throws in turn: nothing is shown or logged, and the promise
  of \<^verbatim>\<open>handleSave\<close> is rejected with a \<^verbatim>\<open>TypeError\<close>.
\<close>

theorem handleSave_thrown_undefined_counterexample:
  "filter is_error_report (effects_of (handleSave \<lparr>initialData = JUndefined, productId = None\<rparr>
        (Rejected JUndefined)
        (defaultValues \<lparr>initialData = JUndefined, productId = None\<rparr>) True
        (initial_component \<lparr>initialData = JUndefined, productId = None\<rparr>)))
      = []
   \<and> completion_of (handleSave \<lparr>initialData = JUndefined, productId = None\<rparr>
        (Rejected JUndefined)
        (defaultValues \<lparr>initialData = JUndefined, productId = None\<rparr>) True
        (initial_component \<lparr>initialData = JUndefined, productId = None\<rparr>))
      = Threw TypeError"
  by (simp add: effects_of_def completion_of_def handleSave_rejected)

text \<open>
  C3. After a rejected call, whatever was thrown, the component is in the state it had
  when the run started, with the loading flag false: the form values, the form errors and
  the item type are unchanged. The run writes nothing to the form and does not touch the
  router.
\<close>

theorem handleSave_failure_keeps_form:
  "state_of (handleSave p (Rejected e) data r st) = st\<lparr>loading := False\<rparr>
   \<and> form_values (state_of (handleSave p (Rejected e) data r st)) = form_values st
   \<and> form_errors (state_of (handleSave p (Rejected e) data r st)) = form_errors st
   \<and> itemType (state_of (handleSave p (Rejected e) data r st)) = itemType st
   \<and> loading (state_of (handleSave p (Rejected e) data r st)) = False
   \<and> filter is_form_write (effects_of (handleSave p (Rejected e) data r st)) = []
   \<and> filter is_router (effects_of (handleSave p (Rejected e) data r st)) = []"
  by (simp add: state_of_def effects_of_def handleSave_rejected)

section \<open>A resolved call\<close>



text \<open>
  C5. After a successful \<open>Save\<close>, the run has refreshed the current view and then pushed
  \<open>/dashboard/inventory\<close>; these are its only uses of the router, in this order.
\<close>

theorem save_redirects_to_inventory:
  "filter is_router (effects_of (onSubmit (handleSave p Resolved) data st))
     = [RouterRefresh, RouterPush ''/dashboard/inventory'']
   \<and> filter is_router (effects_of (handleSave p Resolved data True st))
     = [RouterRefresh, RouterPush ''/dashboard/inventory'']"
  by (simp add: onSubmit_def effects_of_def handleSave_resolved_redirect)

section \<open>Validation blocks the submission\<close>



section \<open>One submission at a time\<close>



section \<open>Tabs\<close>

text \<open>
  C8. The \<open>stock\<close> tab, trigger and panel, is rendered exactly when the item type is
  \<open>product\<close>; the \<open>general\<close> and \<open>pricing\<close> tabs are always rendered. Selecting
  \<open>service\<close> leaves the first two tabs, selecting \<open>product\<close> gives all three.
\<close>

theorem stock_tab_only_for_product:
  "(''stock'' \<in> set (tab_triggers (render p st))) = (itemType st = JStr ''product'')
   \<and> (''stock'' \<in> set (tab_contents (render p st))) = (itemType st = JStr ''product'')
   \<and> ''general'' \<in> set (tab_triggers (render p st))
   \<and> ''pricing'' \<in> set (tab_triggers (render p st))
   \<and> ''general'' \<in> set (tab_contents (render p st))
   \<and> ''pricing'' \<in> set (tab_contents (render p st))
   \<and> tab_triggers (render p (fst (handleTypeChange (JStr ''service'') st)))
       = [''general'', ''pricing'']
   \<and> tab_contents (render p (fst (handleTypeChange (JStr ''service'') st)))
       = [''general'', ''pricing'']
   \<and> tab_triggers (render p (fst (handleTypeChange (JStr ''product'') st)))
       = [''general'', ''pricing'', ''stock'']
   \<and> tab_contents (render p (fst (handleTypeChange (JStr ''product'') st)))
       = [''general'', ''pricing'', ''stock'']"
  by (simp add: render_def handleTypeChange_def)

section \<open>Initial form values\<close>

text \<open>
  C9. When the component is given a record, each field whose value in the record is
  truthy takes that value (\<^verbatim>\<open>opening_stock_date\<close> takes the \<^verbatim>\<open>Date\<close> built from it). When
  no record is given, the fields take the defaults: empty strings, zero prices, quantity,
  rate and discount, unit \<open>pcs\<close>, threshold 5, type \<open>product\<close>, both tax types
  \<open>exclusive\<close>, discount type \<open>percentage\<close>, no wholesale price and no date.
\<close>

theorem defaultValues_from_record_or_defaults:
  "(initialData p = JObj kvs \<longrightarrow>
      (\<forall>v. map_of kvs ''name'' = Some v \<and> truthy v \<longrightarrow> name (defaultValues p) = v)
    \<and> (\<forall>v. map_of kvs ''description'' = Some v \<and> truthy v \<longrightarrow> description (defaultValues p) = v)
    \<and> (\<forall>v. map_of kvs ''sku'' = Some v \<and> truthy v \<longrightarrow> sku (defaultValues p) = v)
    \<and> (\<forall>v. map_of kvs ''hsn_code'' = Some v \<and> truthy v \<longrightarrow> hsn_code (defaultValues p) = v)
    \<and> (\<forall>v. map_of kvs ''price'' = Some v \<and> truthy v \<longrightarrow> price (defaultValues p) = v)
    \<and> (\<forall>v. map_of kvs ''cost_price'' = Some v \<and> truthy v \<longrightarrow> cost_price (defaultValues p) = v)
    \<and> (\<forall>v. map_of kvs ''stock_quantity'' = Some v \<and> truthy v \<longrightarrow>
           stock_quantity (defaultValues p) = v)
    \<and> (\<forall>v. map_of kvs ''gst_rate'' = Some v \<and> truthy v \<longrightarrow> gst_rate (defaultValues p) = v)
    \<and> (\<forall>v. map_of kvs ''unit'' = Some v \<and> truthy v \<longrightarrow> unit (defaultValues p) = v)
    \<and> (\<forall>v. map_of kvs ''low_stock_threshold'' = Some v \<and> truthy v \<longrightarrow>
           low_stock_threshold (defaultValues p) = v)
    \<and> (\<forall>v. map_of kvs ''type'' = Some v \<and> truthy v \<longrightarrow> type (defaultValues p) = v)
    \<and> (\<forall>v. map_of kvs ''image_url'' = Some v \<and> truthy v \<longrightarrow> image_url (defaultValues p) = v)
    \<and> (\<forall>v. map_of kvs ''barcode'' = Some v \<and> truthy v \<longrightarrow> barcode (defaultValues p) = v)
    \<and> (\<forall>v. map_of kvs ''category'' = Some v \<and> truthy v \<longrightarrow> category (defaultValues p) = v)
    \<and> (\<forall>v. map_of kvs ''tax_type'' = Some v \<and> truthy v \<longrightarrow> tax_type (defaultValues p) = v)
    \<and> (\<forall>v. map_of kvs ''purchase_tax_type'' = Some v \<and> truthy v \<longrightarrow>
           purchase_tax_type (defaultValues p) = v)
    \<and> (\<forall>v. map_of kvs ''discount'' = Some v \<and> truthy v \<longrightarrow> discount (defaultValues p) = v)
    \<and> (\<forall>v. map_of kvs ''discount_type'' = Some v \<and> truthy v \<longrightarrow>
           discount_type (defaultValues p) = v)
    \<and> (\<forall>v. map_of kvs ''wholesale_price'' = Some v \<and> truthy v \<longrightarrow>
           wholesale_price (defaultValues p) = v)
    \<and> (\<forall>v. map_of kvs ''opening_stock_date'' = Some v \<and> truthy v \<longrightarrow>
           opening_stock_date (defaultValues p) = JDate v))
   \<and> (nullish (initialData p) \<longrightarrow>
        defaultValues p
          = \<lparr> name = JStr '''', description = JStr '''', sku = JStr '''', hsn_code = JStr '''',
              price = JNum 0, cost_price = JNum 0, stock_quantity = JNum 0, gst_rate = JNum 0,
              unit = JStr ''pcs'', low_stock_threshold = JNum 5, type = JStr ''product'',
              image_url = JStr '''', barcode = JStr '''', category = JStr '''',
              tax_type = JStr ''exclusive'', purchase_tax_type = JStr ''exclusive'',
              discount = JNum 0, discount_type = JStr ''percentage'',
              wholesale_price = JUndefined, opening_stock_date = JUndefined \<rparr>)"
  by (simp add: defaultValues_def opt_member_def js_or_def)

text \<open>A stored service with a threshold of 2 and a stock date, and an add form.\<close>

theorem defaultValues_from_record_or_defaults_witness:
  "initialData \<lparr>initialData = JObj [(''name'', JStr ''Pen''), (''price'', JNum 12),
        (''low_stock_threshold'', JNum 2), (''type'', JStr ''service''),
        (''opening_stock_date'', JStr ''2024-01-01'')], productId = Some ''p1''\<rparr>
     = JObj [(''name'', JStr ''Pen''), (''price'', JNum 12),
        (''low_stock_threshold'', JNum 2), (''type'', JStr ''service''),
        (''opening_stock_date'', JStr ''2024-01-01'')]
   \<and> map_of [(''name'', JStr ''Pen''), (''price'', JNum 12),
        (''low_stock_threshold'', JNum 2), (''type'', JStr ''service''),
        (''opening_stock_date'', JStr ''2024-01-01'')] ''low_stock_threshold'' = Some (JNum 2)
   \<and> truthy (JNum 2)
   \<and> low_stock_threshold (defaultValues \<lparr>initialData = JObj [(''name'', JStr ''Pen''),
        (''price'', JNum 12), (''low_stock_threshold'', JNum 2), (''type'', JStr ''service''),
        (''opening_stock_date'', JStr ''2024-01-01'')], productId = Some ''p1''\<rparr>) = JNum 2
   \<and> name (defaultValues \<lparr>initialData = JObj [(''name'', JStr ''Pen''),
        (''price'', JNum 12), (''low_stock_threshold'', JNum 2), (''type'', JStr ''service''),
        (''opening_stock_date'', JStr ''2024-01-01'')], productId = Some ''p1''\<rparr>) = JStr ''Pen''
   \<and> type (defaultValues \<lparr>initialData = JObj [(''name'', JStr ''Pen''),
        (''price'', JNum 12), (''low_stock_threshold'', JNum 2), (''type'', JStr ''service''),
        (''opening_stock_date'', JStr ''2024-01-01'')], productId = Some ''p1''\<rparr>) = JStr ''service''
   \<and> opening_stock_date (defaultValues \<lparr>initialData = JObj [(''name'', JStr ''Pen''),
        (''price'', JNum 12), (''low_stock_threshold'', JNum 2), (''type'', JStr ''service''),
        (''opening_stock_date'', JStr ''2024-01-01'')], productId = Some ''p1''\<rparr>)
       = JDate (JStr ''2024-01-01'')
   \<and> nullish (initialData \<lparr>initialData = JUndefined, productId = None\<rparr>)
   \<and> unit (defaultValues \<lparr>initialData = JUndefined, productId = None\<rparr>) = JStr ''pcs''
   \<and> low_stock_threshold (defaultValues \<lparr>initialData = JUndefined, productId = None\<rparr>) = JNum 5
   \<and> tax_type (defaultValues \<lparr>initialData = JUndefined, productId = None\<rparr>) = JStr ''exclusive''
   \<and> type (defaultValues \<lparr>initialData = JUndefined, productId = None\<rparr>) = JStr ''product''"
  using defaultValues_from_record_or_defaults
          [of "\<lparr>initialData = JObj [(''name'', JStr ''Pen''), (''price'', JNum 12),
                  (''low_stock_threshold'', JNum 2), (''type'', JStr ''service''),
                  (''opening_stock_date'', JStr ''2024-01-01'')], productId = Some ''p1''\<rparr>"
              "[(''name'', JStr ''Pen''), (''price'', JNum 12),
                (''low_stock_threshold'', JNum 2), (''type'', JStr ''service''),
                (''opening_stock_date'', JStr ''2024-01-01'')]"]
        defaultValues_from_record_or_defaults
          [of "\<lparr>initialData = JUndefined, productId = None\<rparr>" "[]"]
  by simp

text \<open>
  Each field is read with \<^verbatim>\<open>||\<close>, so a falsy value of the record is replaced by the
  default: a stored threshold of 0 comes up as 5.
\<close>

theorem defaultValues_falsy_value_counterexample:
  "member (JObj [(''name'', JStr ''Pen''), (''low_stock_threshold'', JNum 0)])
      ''low_stock_threshold'' = JNum 0
   \<and> low_stock_threshold (defaultValues
        \<lparr>initialData = JObj [(''name'', JStr ''Pen''), (''low_stock_threshold'', JNum 0)],
         productId = Some ''p1''\<rparr>) = JNum 5"
  by (simp add: defaultValues_def opt_member_def js_or_def)

section \<open>The submitted type\<close>


end
